theory Spec2Isabelle
  imports Complex_Main
begin

section \<open>Tensors and the errors of the tensor layer\<close>

text \<open>
  Every tensor that \<^verbatim>\<open>architecture.py\<close> handles has three axes
  (\<^verbatim>\<open>permute(0, 2, 1)\<close> accepts nothing else), so a tensor is its three
  sizes and its entries, read by index. Entries are real numbers: rounding of the
  floating-point arithmetic is not part of the model. Only the entries at indices
  inside the sizes mean anything.
\<close>

record tensor =
  dim0 :: nat
  dim1 :: nat
  dim2 :: nat
  elem :: "nat \<Rightarrow> nat \<Rightarrow> nat \<Rightarrow> real"

definition shape :: "tensor \<Rightarrow> nat list" where
  "shape x = [dim0 x, dim1 x, dim2 x]"

text \<open>
  The exceptions the layers of \<^verbatim>\<open>torch\<close> raise on the paths of this program,
  one constructor for each check:
  \<^item> \<open>ChannelMismatch\<close>: a convolution whose input has not \<open>in_channels\<close> channels
    (expected, got);
  \<^item> \<open>KernelTooLarge\<close>: a convolution whose padded input is shorter than its kernel
    (padded length, kernel size);
  \<^item> \<open>EmptyInput\<close>: a pooling over a tensor with no channel or no timestep;
  \<^item> \<open>InvalidOutputSize\<close>: a pooling whose computed output length is not positive;
  \<^item> \<open>TooFewValues\<close>: a batch normalisation in training mode over one value per channel;
  \<^item> \<open>FeatureMismatch\<close>: a normalisation, a linear layer or a recurrent layer whose
    input has not the configured number of features (expected, got);
  \<^item> \<open>EmptySequence\<close>: a recurrent layer over a sequence of length 0;
  \<^item> \<open>MatmulMismatch\<close>: a batched matrix product whose operands do not fit.
\<close>

datatype error =
    ChannelMismatch nat nat
  | KernelTooLarge nat nat
  | EmptyInput
  | InvalidOutputSize
  | TooFewValues
  | FeatureMismatch nat nat
  | EmptySequence
  | MatmulMismatch

text \<open>\<^verbatim>\<open>x.permute(0, 2, 1)\<close>: the last two axes change places.\<close>

definition permute_0_2_1 :: "tensor \<Rightarrow> tensor" where
  "permute_0_2_1 x =
     \<lparr>dim0 = dim0 x, dim1 = dim2 x, dim2 = dim1 x, elem = (\<lambda>b i j. elem x b j i)\<rparr>"

section \<open>The layers of torch.nn the program is built from\<close>

subsection \<open>Conv1d\<close>

record Conv1d =
  conv_weight :: "nat \<Rightarrow> nat \<Rightarrow> nat \<Rightarrow> real"
  conv_bias :: "nat \<Rightarrow> real"

text \<open>The input of a convolution, read with \<open>padding\<close> zeros before and after it.\<close>

definition padded :: "tensor \<Rightarrow> nat \<Rightarrow> nat \<Rightarrow> nat \<Rightarrow> nat \<Rightarrow> real" where
  "padded x padding b c i =
     (if padding \<le> i \<and> i - padding < dim2 x then elem x b c (i - padding) else 0)"

text \<open>
  \<^verbatim>\<open>nn.Conv1d(in_channels, out_channels, kernel_size, stride, padding)\<close> applied to
  \<open>[B, C, L]\<close>. The channel count is checked first (\<^verbatim>\<open>expected input ... to have
  in_channels channels, but got C channels instead\<close>), then the padded length against
  the kernel (\<^verbatim>\<open>Kernel size can't be greater than actual input size\<close>); the output has
  length \<open>(L + 2 * padding - kernel_size) div stride + 1\<close>, and its entry at \<open>(b, oc, t)\<close>
  is the bias of \<open>oc\<close> plus the sum, over the input channels and the kernel positions,
  of weight times padded input.
\<close>

definition Conv1d_forward ::
  "nat \<Rightarrow> nat \<Rightarrow> nat \<Rightarrow> nat \<Rightarrow> nat \<Rightarrow> Conv1d \<Rightarrow> tensor \<Rightarrow> error + tensor" where
  "Conv1d_forward in_channels out_channels kernel_size stride padding p x =
     (if dim1 x \<noteq> in_channels then Inl (ChannelMismatch in_channels (dim1 x))
      else if dim2 x + 2 * padding < kernel_size
        then Inl (KernelTooLarge (dim2 x + 2 * padding) kernel_size)
      else Inr \<lparr>dim0 = dim0 x, dim1 = out_channels,
                dim2 = (dim2 x + 2 * padding - kernel_size) div stride + 1,
                elem = (\<lambda>b oc t. conv_bias p oc +
                  (\<Sum>c<in_channels. \<Sum>k<kernel_size.
                     conv_weight p oc c k * padded x padding b c (t * stride + k)))\<rparr>)"

subsection \<open>BatchNorm1d\<close>

text \<open>
  The learned scale and shift, and the three buffers a normalisation layer keeps:
  the running mean, the running variance and the count of training batches seen.
\<close>

record BatchNorm1d =
  bn_weight :: "nat \<Rightarrow> real"
  bn_bias :: "nat \<Rightarrow> real"
  running_mean :: "nat \<Rightarrow> real"
  running_var :: "nat \<Rightarrow> real"
  num_batches_tracked :: nat

definition bn_eps :: real where
  "bn_eps = 1 / 100000"

definition bn_momentum :: real where
  "bn_momentum = 1 / 10"

text \<open>Mean and (biased) variance of channel \<open>c\<close> over the batch and time axes.\<close>

definition batch_mean :: "tensor \<Rightarrow> nat \<Rightarrow> real" where
  "batch_mean x c = (\<Sum>b<dim0 x. \<Sum>t<dim2 x. elem x b c t) / real (dim0 x * dim2 x)"

definition batch_var :: "tensor \<Rightarrow> nat \<Rightarrow> real" where
  "batch_var x c =
     (\<Sum>b<dim0 x. \<Sum>t<dim2 x. (elem x b c t - batch_mean x c)\<^sup>2) / real (dim0 x * dim2 x)"

text \<open>
  The unbiased variance (over \<open>n - 1\<close> instead of \<open>n\<close> values), and the step of a
  running statistic towards the statistic of the batch.
\<close>

definition unbiased_var :: "tensor \<Rightarrow> nat \<Rightarrow> real" where
  "unbiased_var x c =
     batch_var x c * real (dim0 x * dim2 x) / (real (dim0 x * dim2 x) - 1)"

definition momentum_update :: "(nat \<Rightarrow> real) \<Rightarrow> (nat \<Rightarrow> real) \<Rightarrow> nat \<Rightarrow> real" where
  "momentum_update running batch c = (1 - bn_momentum) * running c + bn_momentum * batch c"

definition normalize :: "(nat \<Rightarrow> real) \<Rightarrow> (nat \<Rightarrow> real) \<Rightarrow> BatchNorm1d \<Rightarrow> tensor \<Rightarrow> tensor" where
  "normalize mean var s x =
     x\<lparr>elem := (\<lambda>b c t. (elem x b c t - mean c) / sqrt (var c + bn_eps) * bn_weight s c
                          + bn_bias s c)\<rparr>"

text \<open>
  \<^verbatim>\<open>nn.BatchNorm1d(num_features)\<close> applied to \<open>[B, C, L]\<close>, with the layer's buffers
  passed in and returned (the defaults: \<^verbatim>\<open>eps=1e-5\<close>, \<^verbatim>\<open>momentum=0.1\<close>,
  \<^verbatim>\<open>track_running_stats=True\<close>). In training mode the layer first increments its
  batch counter (\<^verbatim>\<open>self.num_batches_tracked.add_(1)\<close>), then refuses a batch with one
  value per channel (\<^verbatim>\<open>Expected more than 1 value per channel when training\<close>),
  normalises the input with the statistics of the batch, and moves the running
  statistics towards them by the momentum (the variance unbiased). In evaluation mode
  the input is normalised with the running statistics and the buffers are returned as
  they were.
\<close>

definition BatchNorm1d_forward ::
  "nat \<Rightarrow> bool \<Rightarrow> BatchNorm1d \<Rightarrow> tensor \<Rightarrow> (error + tensor) \<times> BatchNorm1d" where
  "BatchNorm1d_forward num_features training s x =
     (if training then
        (let s1 = s\<lparr>num_batches_tracked := num_batches_tracked s + 1\<rparr>
         in if dim0 x * dim2 x = 1 then (Inl TooFewValues, s1)
            else if dim1 x \<noteq> num_features
              then (Inl (FeatureMismatch num_features (dim1 x)), s1)
            else (Inr (normalize (batch_mean x) (batch_var x) s x),
                  s1\<lparr>running_mean := momentum_update (running_mean s) (batch_mean x),
                     running_var := momentum_update (running_var s) (unbiased_var x)\<rparr>))
      else if dim1 x \<noteq> num_features
        then (Inl (FeatureMismatch num_features (dim1 x)), s)
      else (Inr (normalize (running_mean s) (running_var s) s x), s))"

subsection \<open>ReLU and MaxPool1d\<close>

definition ReLU :: "tensor \<Rightarrow> tensor" where
  "ReLU x = x\<lparr>elem := (\<lambda>b c t. max 0 (elem x b c t))\<rparr>"

text \<open>
  \<^verbatim>\<open>nn.ReLU(inplace=True)\<close> overwrites the tensor it is given; that tensor is the fresh
  output of the normalisation before it and nothing else reads it, so the layer is
  modelled by its value.

  \<^verbatim>\<open>nn.MaxPool1d(kernel_size, stride)\<close> applied to \<open>[B, C, L]\<close>, without padding or
  dilation. An input with no channel or no timestep is refused. The output length is
  computed as \<open>floor ((L - kernel_size) / stride) + 1\<close>, and a computed length that is
  not positive is refused (\<^verbatim>\<open>max_pool1d() Invalid computed output size: 0\<close>, or
  \<^verbatim>\<open>Output size is too small\<close> on the path that records gradients): so the layer
  fails exactly when \<open>L < kernel_size\<close>, and never returns a sequence of length 0.
\<close>

definition MaxPool1d_forward :: "nat \<Rightarrow> nat \<Rightarrow> tensor \<Rightarrow> error + tensor" where
  "MaxPool1d_forward kernel_size stride x =
     (if dim1 x = 0 \<or> dim2 x = 0 then Inl EmptyInput
      else if dim2 x < kernel_size then Inl InvalidOutputSize
      else Inr \<lparr>dim0 = dim0 x, dim1 = dim1 x,
                dim2 = (dim2 x - kernel_size) div stride + 1,
                elem = (\<lambda>b c t. Max ((\<lambda>k. elem x b c (t * stride + k)) ` {..<kernel_size}))\<rparr>)"

section \<open>TemporalCNN\<close>

record TemporalCNN =
  cnn_input_size :: nat
  conv1 :: Conv1d
  bn1 :: BatchNorm1d
  conv2 :: Conv1d
  bn2 :: BatchNorm1d

text \<open>
  \<^verbatim>\<open>self.conv_layers\<close>: the eight layers of the \<^verbatim>\<open>nn.Sequential\<close>, each applied to
  the result of the one before. The first error ends the call; the buffers changed
  until then stay changed.
\<close>

definition conv_layers :: "bool \<Rightarrow> TemporalCNN \<Rightarrow> tensor \<Rightarrow> (error + tensor) \<times> TemporalCNN" where
  "conv_layers training m x =
     (case Conv1d_forward (cnn_input_size m) 64 3 1 1 (conv1 m) x of
        Inl e \<Rightarrow> (Inl e, m)
      | Inr x1 \<Rightarrow>
     (case BatchNorm1d_forward 64 training (bn1 m) x1 of
        (Inl e, s1) \<Rightarrow> (Inl e, m\<lparr>bn1 := s1\<rparr>)
      | (Inr x2, s1) \<Rightarrow>
     (case MaxPool1d_forward 2 2 (ReLU x2) of
        Inl e \<Rightarrow> (Inl e, m\<lparr>bn1 := s1\<rparr>)
      | Inr x4 \<Rightarrow>
     (case Conv1d_forward 64 128 3 1 1 (conv2 m) x4 of
        Inl e \<Rightarrow> (Inl e, m\<lparr>bn1 := s1\<rparr>)
      | Inr x5 \<Rightarrow>
     (case BatchNorm1d_forward 128 training (bn2 m) x5 of
        (Inl e, s2) \<Rightarrow> (Inl e, m\<lparr>bn1 := s1, bn2 := s2\<rparr>)
      | (Inr x6, s2) \<Rightarrow>
          (MaxPool1d_forward 2 2 (ReLU x6), m\<lparr>bn1 := s1, bn2 := s2\<rparr>))))))"

definition TemporalCNN_forward ::
  "bool \<Rightarrow> TemporalCNN \<Rightarrow> tensor \<Rightarrow> (error + tensor) \<times> TemporalCNN" where
  "TemporalCNN_forward training m x = conv_layers training m x"

section \<open>More of the tensor layer: Linear, matmul, softmax\<close>

record Linear =
  lin_weight :: "nat \<Rightarrow> nat \<Rightarrow> real"
  lin_bias :: "nat \<Rightarrow> real"

text \<open>
  \<^verbatim>\<open>nn.Linear(in_features, out_features)\<close> applied to \<open>[B, T, D]\<close>: the same affine
  map at every position \<open>(b, t)\<close>, over the last axis.
\<close>

definition Linear_forward :: "nat \<Rightarrow> nat \<Rightarrow> Linear \<Rightarrow> tensor \<Rightarrow> error + tensor" where
  "Linear_forward in_features out_features p x =
     (if dim2 x \<noteq> in_features then Inl (FeatureMismatch in_features (dim2 x))
      else Inr \<lparr>dim0 = dim0 x, dim1 = dim1 x, dim2 = out_features,
                elem = (\<lambda>b t oc. (\<Sum>d<in_features. elem x b t d * lin_weight p oc d)
                                  + lin_bias p oc)\<rparr>)"

text \<open>
  \<^verbatim>\<open>torch.matmul\<close> of two tensors with three axes: a matrix product for every
  batch index, a batch axis of size 1 being broadcast.
\<close>

definition matmul :: "tensor \<Rightarrow> tensor \<Rightarrow> error + tensor" where
  "matmul a b =
     (if dim2 a \<noteq> dim1 b then Inl MatmulMismatch
      else if dim0 a \<noteq> dim0 b \<and> dim0 a \<noteq> 1 \<and> dim0 b \<noteq> 1 then Inl MatmulMismatch
      else Inr \<lparr>dim0 = (if dim0 a = 1 then dim0 b else dim0 a), dim1 = dim1 a, dim2 = dim2 b,
                elem = (\<lambda>n i j. \<Sum>k<dim2 a.
                          elem a (if dim0 a = 1 then 0 else n) i k
                        * elem b (if dim0 b = 1 then 0 else n) k j)\<rparr>)"

text \<open>\<^verbatim>\<open>x /= c\<close> for a number \<open>c\<close>.\<close>

definition div_scalar :: "tensor \<Rightarrow> real \<Rightarrow> tensor" where
  "div_scalar x c = x\<lparr>elem := (\<lambda>b i j. elem x b i j / c)\<rparr>"

text \<open>\<^verbatim>\<open>nn.functional.softmax(x, dim=-1)\<close>.\<close>

definition softmax :: "tensor \<Rightarrow> tensor" where
  "softmax x = x\<lparr>elem := (\<lambda>b i j. exp (elem x b i j) / (\<Sum>k<dim2 x. exp (elem x b i k)))\<rparr>"

section \<open>SelfAttention\<close>

record SelfAttention =
  num_features :: nat
  key_matrix :: Linear
  query_matrix :: Linear
  value_matrix :: Linear

definition SelfAttention_forward :: "SelfAttention \<Rightarrow> tensor \<Rightarrow> error + (tensor \<times> tensor)" where
  "SelfAttention_forward a x =
     (case Linear_forward (num_features a) (num_features a) (key_matrix a) x of
        Inl e \<Rightarrow> Inl e
      | Inr key_vecs \<Rightarrow>
     (case Linear_forward (num_features a) (num_features a) (query_matrix a) x of
        Inl e \<Rightarrow> Inl e
      | Inr query_vecs \<Rightarrow>
     (case Linear_forward (num_features a) (num_features a) (value_matrix a) x of
        Inl e \<Rightarrow> Inl e
      | Inr value_vecs \<Rightarrow>
     (case matmul query_vecs (permute_0_2_1 key_vecs) of
        Inl e \<Rightarrow> Inl e
      | Inr attn_scores \<Rightarrow>
          (let attn_scores' = div_scalar attn_scores (sqrt (real (num_features a)));
               attn_weights = softmax attn_scores'
           in case matmul attn_weights value_vecs of
                Inl e \<Rightarrow> Inl e
              | Inr outputs \<Rightarrow> Inr (outputs, attn_weights))))))"

subsection \<open>The attention as the specification words it\<close>

text \<open>
  The specification describes the block by formulas on the entries: a projection of
  the input at one position, and the score of a query position \<open>i\<close> against a key
  position \<open>j\<close>, divided by the square root of the feature width. These two
  definitions follow the specification, not the code; the theorems on
  \<open>SelfAttention_forward\<close> compare the code with them.
\<close>

definition projection :: "Linear \<Rightarrow> nat \<Rightarrow> tensor \<Rightarrow> nat \<Rightarrow> nat \<Rightarrow> nat \<Rightarrow> real" where
  "projection p n x b t oc = (\<Sum>d<n. elem x b t d * lin_weight p oc d) + lin_bias p oc"

definition scaled_score :: "SelfAttention \<Rightarrow> tensor \<Rightarrow> nat \<Rightarrow> nat \<Rightarrow> nat \<Rightarrow> real" where
  "scaled_score a x b i j =
     (\<Sum>d<num_features a.
        projection (query_matrix a) (num_features a) x b i d
      * projection (key_matrix a) (num_features a) x b j d)
     / sqrt (real (num_features a))"

section \<open>LSTM\<close>

text \<open>The parameters of one direction of one layer, named as \<^verbatim>\<open>nn.LSTM\<close> names them.\<close>

record LSTM_direction =
  weight_ih :: "nat \<Rightarrow> nat \<Rightarrow> real"
  weight_hh :: "nat \<Rightarrow> nat \<Rightarrow> real"
  bias_ih :: "nat \<Rightarrow> real"
  bias_hh :: "nat \<Rightarrow> real"

text \<open>The parameters of the layer \<open>l\<close>, forward (\<open>False\<close>) or reverse (\<open>True\<close>).\<close>

type_synonym LSTM = "nat \<Rightarrow> bool \<Rightarrow> LSTM_direction"

definition sigmoid :: "real \<Rightarrow> real" where
  "sigmoid z = 1 / (1 + exp (- z))"

text \<open>
  One step of the cell on the input vector \<open>xt\<close>, from the hidden and cell state
  \<open>(h, c)\<close>: the four gates in the order input, forget, cell, output.
\<close>

definition lstm_cell ::
  "nat \<Rightarrow> nat \<Rightarrow> LSTM_direction \<Rightarrow> (nat \<Rightarrow> real) \<Rightarrow> (nat \<Rightarrow> real) \<times> (nat \<Rightarrow> real)
     \<Rightarrow> (nat \<Rightarrow> real) \<times> (nat \<Rightarrow> real)" where
  "lstm_cell input_dim hidden p xt hc =
     (let h = fst hc; c = snd hc;
          gates = (\<lambda>r. (\<Sum>k<input_dim. weight_ih p r k * xt k) + bias_ih p r
                     + (\<Sum>k<hidden. weight_hh p r k * h k) + bias_hh p r);
          i_gate = (\<lambda>j. sigmoid (gates j));
          f_gate = (\<lambda>j. sigmoid (gates (hidden + j)));
          g_gate = (\<lambda>j. tanh (gates (2 * hidden + j)));
          o_gate = (\<lambda>j. sigmoid (gates (3 * hidden + j)));
          c' = (\<lambda>j. f_gate j * c j + i_gate j * g_gate j)
      in (\<lambda>j. o_gate j * tanh (c' j), c'))"

text \<open>The state after the first \<open>n\<close> vectors of a sequence, from the zero state.\<close>

primrec lstm_steps ::
  "((nat \<Rightarrow> real) \<Rightarrow> (nat \<Rightarrow> real) \<times> (nat \<Rightarrow> real) \<Rightarrow> (nat \<Rightarrow> real) \<times> (nat \<Rightarrow> real))
     \<Rightarrow> (nat \<Rightarrow> nat \<Rightarrow> real) \<Rightarrow> nat \<Rightarrow> (nat \<Rightarrow> real) \<times> (nat \<Rightarrow> real)" where
  "lstm_steps cell xs 0 = (\<lambda>j. 0, \<lambda>j. 0)"
| "lstm_steps cell xs (Suc n) = cell (xs n) (lstm_steps cell xs n)"

text \<open>
  The final state of one direction of a layer on the sequence of batch entry \<open>b\<close>:
  the reverse direction reads the sequence from its last timestep.
\<close>

definition direction_final ::
  "nat \<Rightarrow> nat \<Rightarrow> LSTM_direction \<Rightarrow> bool \<Rightarrow> tensor \<Rightarrow> nat
     \<Rightarrow> (nat \<Rightarrow> real) \<times> (nat \<Rightarrow> real)" where
  "direction_final input_dim hidden p reverse x b =
     lstm_steps (lstm_cell input_dim hidden p)
       (\<lambda>k. elem x b (if reverse then dim1 x - 1 - k else k)) (dim1 x)"

text \<open>
  One layer on \<open>[B, T, input_dim]\<close> (\<^verbatim>\<open>batch_first=True\<close>): at every timestep the
  hidden state of the forward direction, followed by that of the reverse direction
  when the layer is bidirectional.
\<close>

definition LSTM_layer ::
  "nat \<Rightarrow> nat \<Rightarrow> bool \<Rightarrow> (bool \<Rightarrow> LSTM_direction) \<Rightarrow> tensor \<Rightarrow> tensor" where
  "LSTM_layer input_dim hidden bidirectional p x =
     \<lparr>dim0 = dim0 x, dim1 = dim1 x,
      dim2 = (if bidirectional then 2 * hidden else hidden),
      elem = (\<lambda>b t j.
        if j < hidden \<or> \<not> bidirectional
        then fst (lstm_steps (lstm_cell input_dim hidden (p False))
                    (\<lambda>k. elem x b k) (Suc t)) j
        else fst (lstm_steps (lstm_cell input_dim hidden (p True))
                    (\<lambda>k. elem x b (dim1 x - 1 - k)) (dim1 x - t)) (j - hidden))\<rparr>"

text \<open>The input width of layer \<open>l\<close>, and the output of the first \<open>n\<close> layers.\<close>

definition layer_input_dim :: "nat \<Rightarrow> nat \<Rightarrow> bool \<Rightarrow> nat \<Rightarrow> nat" where
  "layer_input_dim input_dim hidden bidirectional l =
     (if l = 0 then input_dim else if bidirectional then 2 * hidden else hidden)"

primrec LSTM_stack :: "nat \<Rightarrow> nat \<Rightarrow> bool \<Rightarrow> LSTM \<Rightarrow> nat \<Rightarrow> tensor \<Rightarrow> tensor" where
  "LSTM_stack input_dim hidden bidirectional p 0 x = x"
| "LSTM_stack input_dim hidden bidirectional p (Suc l) x =
     LSTM_layer (layer_input_dim input_dim hidden bidirectional l) hidden bidirectional (p l)
       (LSTM_stack input_dim hidden bidirectional p l x)"

text \<open>
  The final hidden (\<open>fst\<close>) or cell (\<open>snd\<close>) states, of shape
  \<open>[num_layers * num_directions, B, hidden]\<close>.
\<close>

definition LSTM_final ::
  "((nat \<Rightarrow> real) \<times> (nat \<Rightarrow> real) \<Rightarrow> nat \<Rightarrow> real)
     \<Rightarrow> nat \<Rightarrow> nat \<Rightarrow> nat \<Rightarrow> bool \<Rightarrow> LSTM \<Rightarrow> tensor \<Rightarrow> tensor" where
  "LSTM_final sel input_dim hidden num_layers bidirectional p x =
     (let nd = (if bidirectional then 2 else 1 :: nat)
      in \<lparr>dim0 = num_layers * nd, dim1 = dim0 x, dim2 = hidden,
          elem = (\<lambda>k b j.
            sel (direction_final (layer_input_dim input_dim hidden bidirectional (k div nd))
                   hidden (p (k div nd) (k mod nd = 1)) (k mod nd = 1)
                   (LSTM_stack input_dim hidden bidirectional p (k div nd) x) b) j)\<rparr>)"

text \<open>
  \<^verbatim>\<open>nn.LSTM(input_size, hidden_size, num_layers, batch_first=True, bidirectional)\<close>
  applied to \<open>[B, T, D]\<close> with no initial state and no dropout: the outputs of the
  last layer, and the final hidden and cell states. An input whose last axis is not
  \<open>input_size\<close> is refused, and so is a sequence of length 0.
\<close>

definition LSTM_forward ::
  "nat \<Rightarrow> nat \<Rightarrow> nat \<Rightarrow> bool \<Rightarrow> LSTM \<Rightarrow> tensor \<Rightarrow> error + (tensor \<times> (tensor \<times> tensor))" where
  "LSTM_forward input_dim hidden num_layers bidirectional p x =
     (if dim2 x \<noteq> input_dim then Inl (FeatureMismatch input_dim (dim2 x))
      else if dim1 x = 0 then Inl EmptySequence
      else Inr (LSTM_stack input_dim hidden bidirectional p num_layers x,
                (LSTM_final fst input_dim hidden num_layers bidirectional p x,
                 LSTM_final snd input_dim hidden num_layers bidirectional p x)))"

section \<open>LSTMModel\<close>

record LSTMModel =
  input_size :: nat
  output_size :: nat
  conv_layer :: TemporalCNN
  lstm_layer :: LSTM
  attention :: SelfAttention
  linear_layer :: Linear
  training :: bool

text \<open>The widths \<^verbatim>\<open>__init__\<close> fixes.\<close>

definition lstm_input_dim :: nat where
  "lstm_input_dim = 128"

definition lstm_hidden_dim :: nat where
  "lstm_hidden_dim = 128"

definition num_lstm_layers :: nat where
  "num_lstm_layers = 3"

definition bidir_lstm :: bool where
  "bidir_lstm = True"

definition lstm_output_dim :: nat where
  "lstm_output_dim = (if bidir_lstm then lstm_hidden_dim * 2 else lstm_hidden_dim)"

text \<open>
  \<^verbatim>\<open>LSTMModel.forward\<close>, with the model passed in and returned: the only layers that
  change anything are the normalisations inside \<^verbatim>\<open>conv_layer\<close>. The attention
  weights and the final states of the recurrent layer are bound and not used.
\<close>

definition LSTMModel_forward :: "LSTMModel \<Rightarrow> tensor \<Rightarrow> (error + tensor) \<times> LSTMModel" where
  "LSTMModel_forward m x =
     (let x1 = permute_0_2_1 x;
          r = TemporalCNN_forward (training m) (conv_layer m) x1;
          m' = m\<lparr>conv_layer := snd r\<rparr>
      in case fst r of
           Inl e \<Rightarrow> (Inl e, m')
         | Inr x2 \<Rightarrow>
             (let x3 = permute_0_2_1 x2
              in case LSTM_forward lstm_input_dim lstm_hidden_dim num_lstm_layers bidir_lstm
                        (lstm_layer m) x3 of
                   Inl e \<Rightarrow> (Inl e, m')
                 | Inr (outputs, (final_hidden, final_cell)) \<Rightarrow>
                     (case SelfAttention_forward (attention m) outputs of
                        Inl e \<Rightarrow> (Inl e, m')
                      | Inr (outputs', attn_weights) \<Rightarrow>
                          (Linear_forward lstm_output_dim (output_size m) (linear_layer m)
                             outputs', m'))))"

subsection \<open>Construction and mode\<close>

text \<open>
  A fresh normalisation layer: scale 1, shift 0, running mean 0, running variance 1,
  no batch seen. The other layers start from random weights, which the constructors
  below take as arguments.
\<close>

definition BatchNorm1d_init :: BatchNorm1d where
  "BatchNorm1d_init =
     \<lparr>bn_weight = (\<lambda>c. 1), bn_bias = (\<lambda>c. 0), running_mean = (\<lambda>c. 0),
      running_var = (\<lambda>c. 1), num_batches_tracked = 0\<rparr>"

definition TemporalCNN_init :: "nat \<Rightarrow> Conv1d \<Rightarrow> Conv1d \<Rightarrow> TemporalCNN" where
  "TemporalCNN_init n c1 c2 =
     \<lparr>cnn_input_size = n, conv1 = c1, bn1 = BatchNorm1d_init,
      conv2 = c2, bn2 = BatchNorm1d_init\<rparr>"

definition SelfAttention_init :: "nat \<Rightarrow> Linear \<Rightarrow> Linear \<Rightarrow> Linear \<Rightarrow> SelfAttention" where
  "SelfAttention_init n k q v =
     \<lparr>num_features = n, key_matrix = k, query_matrix = q, value_matrix = v\<rparr>"

text \<open>\<^verbatim>\<open>LSTMModel(output_size, input_size)\<close>; a new module is in training mode.\<close>

definition LSTMModel_init ::
  "nat \<Rightarrow> nat \<Rightarrow> Conv1d \<Rightarrow> Conv1d \<Rightarrow> LSTM \<Rightarrow> Linear \<Rightarrow> Linear \<Rightarrow> Linear \<Rightarrow> Linear
     \<Rightarrow> LSTMModel" where
  "LSTMModel_init out_size in_size c1 c2 l k q v lin =
     \<lparr>input_size = in_size, output_size = out_size,
      conv_layer = TemporalCNN_init in_size c1 c2,
      lstm_layer = l,
      attention = SelfAttention_init lstm_output_dim k q v,
      linear_layer = lin,
      training = True\<rparr>"

text \<open>\<^verbatim>\<open>model.eval()\<close> and \<^verbatim>\<open>model.train()\<close>.\<close>

definition eval_mode :: "LSTMModel \<Rightarrow> LSTMModel" where
  "eval_mode m = m\<lparr>training := False\<rparr>"

definition train_mode :: "LSTMModel \<Rightarrow> LSTMModel" where
  "train_mode m = m\<lparr>training := True\<rparr>"

text \<open>
  What \<^verbatim>\<open>__init__\<close> establishes between the model and its parts, and no call
  changes: the extractor is built for the model's \<open>input_size\<close>, the attention for
  the width of the recurrent output.
\<close>

definition constructed :: "LSTMModel \<Rightarrow> bool" where
  "constructed m \<longleftrightarrow>
     cnn_input_size (conv_layer m) = input_size m \<and>
     num_features (attention m) = lstm_output_dim"


subsection \<open>Concrete tensors and models\<close>

definition zeros :: "nat \<Rightarrow> nat \<Rightarrow> nat \<Rightarrow> tensor" where
  "zeros b c t = \<lparr>dim0 = b, dim1 = c, dim2 = t, elem = (\<lambda>i j k. 0)\<rparr>"

definition zero_conv :: Conv1d where
  "zero_conv = \<lparr>conv_weight = (\<lambda>oc c k. 0), conv_bias = (\<lambda>oc. 0)\<rparr>"

definition const_linear :: "real \<Rightarrow> Linear" where
  "const_linear v = \<lparr>lin_weight = (\<lambda>oc d. 0), lin_bias = (\<lambda>oc. v)\<rparr>"

definition zero_lstm :: LSTM where
  "zero_lstm = (\<lambda>l r. \<lparr>weight_ih = (\<lambda>i k. 0), weight_hh = (\<lambda>i k. 0),
                        bias_ih = (\<lambda>i. 0), bias_hh = (\<lambda>i. 0)\<rparr>)"

text \<open>A model for a vocabulary of 29 over 8 input channels; every logit it computes is 5.\<close>

definition example_model :: LSTMModel where
  "example_model =
     LSTMModel_init 29 8 zero_conv zero_conv zero_lstm
       (const_linear 0) (const_linear 0) (const_linear 0) (const_linear 5)"

section \<open>Shapes and failures of the layers\<close>

lemma permute_dims [simp]:
  "dim0 (permute_0_2_1 x) = dim0 x" "dim1 (permute_0_2_1 x) = dim2 x"
  "dim2 (permute_0_2_1 x) = dim1 x" "elem (permute_0_2_1 x) b i j = elem x b j i"
  by (simp_all add: permute_0_2_1_def)

lemma ReLU_dims [simp]:
  "dim0 (ReLU x) = dim0 x" "dim1 (ReLU x) = dim1 x" "dim2 (ReLU x) = dim2 x"
  by (simp_all add: ReLU_def)

lemma Conv1d_k3_ok:
  "dim1 x = cin \<Longrightarrow> 0 < dim2 x \<Longrightarrow>
   \<exists>y. Conv1d_forward cin cout 3 1 1 p x = Inr y \<and>
       dim0 y = dim0 x \<and> dim1 y = cout \<and> dim2 y = dim2 x"
  by (simp add: Conv1d_forward_def)



lemma MaxPool1d_2_ok:
  "0 < dim1 x \<Longrightarrow> 2 \<le> dim2 x \<Longrightarrow>
   \<exists>y. MaxPool1d_forward 2 2 x = Inr y \<and>
       dim0 y = dim0 x \<and> dim1 y = dim1 x \<and> dim2 y = dim2 x div 2"
  by (simp add: MaxPool1d_forward_def)


lemma BatchNorm1d_ok:
  "dim1 x = nf \<Longrightarrow> dim0 x * dim2 x \<noteq> 1 \<Longrightarrow>
   \<exists>y s'. BatchNorm1d_forward nf tr s x = (Inr y, s') \<and>
       dim0 y = dim0 x \<and> dim1 y = dim1 x \<and> dim2 y = dim2 x"
  by (auto simp add: BatchNorm1d_forward_def Let_def normalize_def)


lemma BatchNorm1d_eval_state:
  "snd (BatchNorm1d_forward nf False s x) = s"
  by (simp add: BatchNorm1d_forward_def)

lemma BatchNorm1d_frame:
  "bn_weight (snd (BatchNorm1d_forward nf tr s x)) = bn_weight s \<and>
   bn_bias (snd (BatchNorm1d_forward nf tr s x)) = bn_bias s"
  by (simp add: BatchNorm1d_forward_def Let_def)


section \<open>The convolutional extractor\<close>

lemma BatchNorm1d_frame_dest:
  "BatchNorm1d_forward nf tr s x = (r, s') \<Longrightarrow>
   bn_weight s' = bn_weight s \<and> bn_bias s' = bn_bias s"
  using BatchNorm1d_frame [of nf tr s x] by simp

lemma BatchNorm1d_eval_dest:
  "BatchNorm1d_forward nf False s x = (r, s') \<Longrightarrow> s' = s"
  using BatchNorm1d_eval_state [of nf s x] by simp

lemma conv_layers_ok:
  assumes c: "dim1 x = cnn_input_size m" and l: "4 \<le> dim2 x"
  shows "\<exists>y. fst (conv_layers tr m x) = Inr y \<and>
             dim0 y = dim0 x \<and> dim1 y = 128 \<and> dim2 y = dim2 x div 2 div 2"
proof -
  have l2: "2 \<le> dim2 x div 2" using l by arith
  obtain x1 where x1: "Conv1d_forward (cnn_input_size m) 64 3 1 1 (conv1 m) x = Inr x1"
      "dim0 x1 = dim0 x" "dim1 x1 = 64" "dim2 x1 = dim2 x"
    using Conv1d_k3_ok [of x "cnn_input_size m" 64 "conv1 m"] c l by auto
  have "dim0 x1 * dim2 x1 \<noteq> 1" using x1 l by auto
  then obtain x2 s1 where x2: "BatchNorm1d_forward 64 tr (bn1 m) x1 = (Inr x2, s1)"
      "dim0 x2 = dim0 x" "dim1 x2 = 64" "dim2 x2 = dim2 x"
    using BatchNorm1d_ok [of x1 64 tr "bn1 m"] x1 by auto
  obtain x4 where x4: "MaxPool1d_forward 2 2 (ReLU x2) = Inr x4"
      "dim0 x4 = dim0 x" "dim1 x4 = 64" "dim2 x4 = dim2 x div 2"
    using MaxPool1d_2_ok [of "ReLU x2"] x2 l by auto
  obtain x5 where x5: "Conv1d_forward 64 128 3 1 1 (conv2 m) x4 = Inr x5"
      "dim0 x5 = dim0 x" "dim1 x5 = 128" "dim2 x5 = dim2 x div 2"
    using Conv1d_k3_ok [of x4 64 128 "conv2 m"] x4 l2 by auto
  have "dim0 x5 * dim2 x5 \<noteq> 1" using x5 l2 by auto
  then obtain x6 s2 where x6: "BatchNorm1d_forward 128 tr (bn2 m) x5 = (Inr x6, s2)"
      "dim0 x6 = dim0 x" "dim1 x6 = 128" "dim2 x6 = dim2 x div 2"
    using BatchNorm1d_ok [of x5 128 tr "bn2 m"] x5 by auto
  obtain y where y: "MaxPool1d_forward 2 2 (ReLU x6) = Inr y"
      "dim0 y = dim0 x" "dim1 y = 128" "dim2 y = dim2 x div 2 div 2"
    using MaxPool1d_2_ok [of "ReLU x6"] x6 l2 by auto
  show ?thesis
    by (simp add: conv_layers_def x1 x2 x4 x5 x6 y del: One_nat_def)
qed




lemma conv_layers_eval_state: "snd (conv_layers False m x) = m"
  by (auto simp add: conv_layers_def split: sum.splits prod.splits
      dest!: BatchNorm1d_eval_dest)

lemma conv_layers_frame:
  "cnn_input_size (snd (conv_layers tr m x)) = cnn_input_size m \<and>
   conv1 (snd (conv_layers tr m x)) = conv1 m \<and>
   conv2 (snd (conv_layers tr m x)) = conv2 m \<and>
   bn_weight (bn1 (snd (conv_layers tr m x))) = bn_weight (bn1 m) \<and>
   bn_bias (bn1 (snd (conv_layers tr m x))) = bn_bias (bn1 m) \<and>
   bn_weight (bn2 (snd (conv_layers tr m x))) = bn_weight (bn2 m) \<and>
   bn_bias (bn2 (snd (conv_layers tr m x))) = bn_bias (bn2 m)"
  by (auto simp add: conv_layers_def split: sum.splits prod.splits
      dest!: BatchNorm1d_frame_dest)




section \<open>Linear, matmul and the recurrent layer\<close>

lemma Linear_ok:
  "dim2 x = n \<Longrightarrow>
   Linear_forward n k p x =
     Inr \<lparr>dim0 = dim0 x, dim1 = dim1 x, dim2 = k,
          elem = (\<lambda>b t oc. (\<Sum>d<n. elem x b t d * lin_weight p oc d) + lin_bias p oc)\<rparr>"
  by (simp add: Linear_forward_def)

lemma Linear_inv:
  "Linear_forward n k p x = Inr y \<Longrightarrow>
   dim2 x = n \<and> dim0 y = dim0 x \<and> dim1 y = dim1 x \<and> dim2 y = k \<and>
   elem y = (\<lambda>b t oc. (\<Sum>d<n. elem x b t d * lin_weight p oc d) + lin_bias p oc)"
  by (auto simp add: Linear_forward_def split: if_splits)

lemma matmul_ok:
  "dim2 a = dim1 b \<Longrightarrow> dim0 a = dim0 b \<Longrightarrow>
   \<exists>y. matmul a b = Inr y \<and> dim0 y = dim0 a \<and> dim1 y = dim1 a \<and> dim2 y = dim2 b \<and>
       (\<forall>n<dim0 a. \<forall>i j. elem y n i j = (\<Sum>k<dim2 a. elem a n i k * elem b n k j))"
  by (auto simp add: matmul_def)

lemma LSTM_layer_dims [simp]:
  "dim0 (LSTM_layer n h bd p x) = dim0 x"
  "dim1 (LSTM_layer n h bd p x) = dim1 x"
  "dim2 (LSTM_layer n h bd p x) = (if bd then 2 * h else h)"
  by (simp_all add: LSTM_layer_def)

lemma LSTM_stack_dims:
  "dim0 (LSTM_stack n h bd p l x) = dim0 x \<and>
   dim1 (LSTM_stack n h bd p l x) = dim1 x \<and>
   dim2 (LSTM_stack n h bd p l x) = (if l = 0 then dim2 x else if bd then 2 * h else h)"
  by (induction l) simp_all

lemma LSTM_forward_ok:
  "dim2 x = n \<Longrightarrow> 0 < dim1 x \<Longrightarrow> 0 < l \<Longrightarrow>
   \<exists>y hn cn. LSTM_forward n h l bd p x = Inr (y, (hn, cn)) \<and>
     dim0 y = dim0 x \<and> dim1 y = dim1 x \<and> dim2 y = (if bd then 2 * h else h) \<and>
     shape hn = [l * (if bd then 2 else 1), dim0 x, h] \<and>
     shape cn = [l * (if bd then 2 else 1), dim0 x, h]"
  by (simp add: LSTM_forward_def LSTM_stack_dims LSTM_final_def shape_def Let_def)

lemma LSTM_forward_inv:
  "LSTM_forward n h l bd p x = Inr (y, (hn, cn)) \<Longrightarrow>
   dim2 x = n \<and> 0 < dim1 x \<and> dim0 y = dim0 x \<and> dim1 y = dim1 x \<and>
   dim2 y = (if l = 0 then dim2 x else if bd then 2 * h else h)"
  by (auto simp add: LSTM_forward_def LSTM_stack_dims split: if_splits)

section \<open>Softmax and the attention block\<close>

lemma softmax_dims [simp]:
  "dim0 (softmax x) = dim0 x" "dim1 (softmax x) = dim1 x" "dim2 (softmax x) = dim2 x"
  by (simp_all add: softmax_def)

lemma div_scalar_dims [simp]:
  "dim0 (div_scalar x c) = dim0 x" "dim1 (div_scalar x c) = dim1 x"
  "dim2 (div_scalar x c) = dim2 x" "elem (div_scalar x c) b i j = elem x b i j / c"
  by (simp_all add: div_scalar_def)





lemma SelfAttention_forward_ok:
  assumes "dim2 x = num_features a"
  shows "\<exists>outputs attn_scores.
     SelfAttention_forward a x = Inr (outputs, softmax attn_scores) \<and>
     dim0 outputs = dim0 x \<and> dim1 outputs = dim1 x \<and> dim2 outputs = dim2 x \<and>
     dim0 attn_scores = dim0 x \<and> dim1 attn_scores = dim1 x \<and> dim2 attn_scores = dim1 x \<and>
     (\<forall>b<dim0 x. \<forall>i j. elem attn_scores b i j = scaled_score a x b i j) \<and>
     (\<forall>b<dim0 x. \<forall>i d. elem outputs b i d =
        (\<Sum>j<dim1 x. elem (softmax attn_scores) b i j
                      * projection (value_matrix a) (num_features a) x b j d))"
  using assms
  by (auto simp add: SelfAttention_forward_def Linear_forward_def matmul_def Let_def
      scaled_score_def projection_def)

lemma SelfAttention_forward_inv:
  assumes "SelfAttention_forward a x = Inr (outputs, attn_weights)"
  shows "dim2 x = num_features a"
  using assms
  by (auto simp add: SelfAttention_forward_def Linear_forward_def
      split: if_splits sum.splits)

section \<open>The whole model\<close>

lemmas widths = lstm_input_dim_def lstm_hidden_dim_def num_lstm_layers_def bidir_lstm_def
  lstm_output_dim_def

lemma LSTMModel_forward_state:
  "snd (LSTMModel_forward m x) =
   m\<lparr>conv_layer := snd (TemporalCNN_forward (training m) (conv_layer m) (permute_0_2_1 x))\<rparr>"
  by (simp add: LSTMModel_forward_def Let_def split: sum.splits prod.splits)

lemma LSTMModel_forward_stages:
  assumes "fst (LSTMModel_forward m x) = Inr y"
  obtains x2 outputs final_hidden final_cell outputs' attn_weights where
    "fst (TemporalCNN_forward (training m) (conv_layer m) (permute_0_2_1 x)) = Inr x2"
    "LSTM_forward lstm_input_dim lstm_hidden_dim num_lstm_layers bidir_lstm (lstm_layer m)
       (permute_0_2_1 x2) = Inr (outputs, (final_hidden, final_cell))"
    "SelfAttention_forward (attention m) outputs = Inr (outputs', attn_weights)"
    "Linear_forward lstm_output_dim (output_size m) (linear_layer m) outputs' = Inr y"
  using assms
  by (auto simp add: LSTMModel_forward_def Let_def split: sum.splits prod.splits)

lemma LSTMModel_forward_compose:
  assumes "fst (TemporalCNN_forward (training m) (conv_layer m) (permute_0_2_1 x)) = Inr x2"
    "LSTM_forward lstm_input_dim lstm_hidden_dim num_lstm_layers bidir_lstm (lstm_layer m)
       (permute_0_2_1 x2) = Inr (outputs, (final_hidden, final_cell))"
    "SelfAttention_forward (attention m) outputs = Inr (outputs', attn_weights)"
  shows "fst (LSTMModel_forward m x) =
         Linear_forward lstm_output_dim (output_size m) (linear_layer m) outputs'"
  using assms by (simp add: LSTMModel_forward_def Let_def)

lemma LSTMModel_forward_ok:
  assumes c: "constructed m" and ch: "dim2 x = input_size m" and l: "4 \<le> dim1 x"
  shows "\<exists>y. fst (LSTMModel_forward m x) = Inr y \<and>
             dim0 y = dim0 x \<and> dim1 y = dim1 x div 2 div 2 \<and> dim2 y = output_size m"
proof -
  have l1: "0 < dim1 x div 2 div 2" using l by arith
  obtain x2 where x2:
      "fst (TemporalCNN_forward (training m) (conv_layer m) (permute_0_2_1 x)) = Inr x2"
      "dim0 x2 = dim0 x" "dim1 x2 = 128" "dim2 x2 = dim1 x div 2 div 2"
    using conv_layers_ok [of "permute_0_2_1 x" "conv_layer m" "training m"] c ch l
    by (auto simp add: TemporalCNN_forward_def constructed_def)
  obtain outputs hn cn where o:
      "LSTM_forward lstm_input_dim lstm_hidden_dim num_lstm_layers bidir_lstm (lstm_layer m)
         (permute_0_2_1 x2) = Inr (outputs, (hn, cn))"
      "dim0 outputs = dim0 x" "dim1 outputs = dim1 x div 2 div 2" "dim2 outputs = 256"
    using LSTM_forward_ok [of "permute_0_2_1 x2" lstm_input_dim num_lstm_layers
        lstm_hidden_dim bidir_lstm "lstm_layer m"] x2 l1
    by (auto simp add: widths)
  have "dim2 outputs = num_features (attention m)"
    using c o by (simp add: constructed_def widths)
  then obtain outputs' attn_weights where a:
      "SelfAttention_forward (attention m) outputs = Inr (outputs', attn_weights)"
      "dim0 outputs' = dim0 x" "dim1 outputs' = dim1 x div 2 div 2" "dim2 outputs' = 256"
    using SelfAttention_forward_ok [of outputs "attention m"] o by auto
  have "fst (LSTMModel_forward m x) =
        Linear_forward lstm_output_dim (output_size m) (linear_layer m) outputs'"
    using x2(1) o(1) a(1) by (rule LSTMModel_forward_compose)
  moreover have "dim2 outputs' = lstm_output_dim" using a by (simp add: widths)
  ultimately show ?thesis
    using a by (simp add: Linear_ok)
qed



lemma constructed_init: "constructed (LSTMModel_init v n c1 c2 l k q w lin)"
  by (simp add: constructed_def LSTMModel_init_def TemporalCNN_init_def SelfAttention_init_def)

lemma constructed_example: "constructed example_model"
  by (simp add: example_model_def constructed_init)

lemma constructed_forward: "constructed m \<Longrightarrow> constructed (snd (LSTMModel_forward m x))"
  using conv_layers_frame [of "training m" "conv_layer m" "permute_0_2_1 x"]
  by (simp add: LSTMModel_forward_state constructed_def TemporalCNN_forward_def)

lemma zeros_dims [simp]:
  "dim0 (zeros b c t) = b" "dim1 (zeros b c t) = c" "dim2 (zeros b c t) = t"
  "elem (zeros b c t) i j k = 0"
  by (simp_all add: zeros_def)

lemma example_model_fields [simp]:
  "input_size example_model = 8" "output_size example_model = 29"
  "training example_model" "linear_layer example_model = const_linear 5"
  by (simp_all add: example_model_def LSTMModel_init_def)

lemma eval_mode_fields [simp]:
  "\<not> training (eval_mode m)" "input_size (eval_mode m) = input_size m"
  "output_size (eval_mode m) = output_size m" "conv_layer (eval_mode m) = conv_layer m"
  "constructed (eval_mode m) = constructed m"
  by (simp_all add: eval_mode_def constructed_def)

lemma LSTMModel_forward_eval_state:
  "\<not> training m \<Longrightarrow> snd (LSTMModel_forward m x) = m"
  by (simp add: LSTMModel_forward_state TemporalCNN_forward_def conv_layers_eval_state)

section \<open>The claims\<close>

subsection \<open>The convolutional extractor (C3)\<close>




subsection \<open>The attention block (C2, C4)\<close>





subsection \<open>The shape contract of the model (C1, C6, C9)\<close>









subsection \<open>What the model returns (C5, C10)\<close>

text \<open>
  Claim C5. The tensor \<open>LSTMModel.forward\<close> returns is the final linear projection, from
  256 features to \<open>output_size\<close>, of the attention output, computed at every position
  \<open>(b, t)\<close> from the 256 features of that position alone. Nothing is applied after it:
  the entries are raw logits.
\<close>

theorem LSTMModel_forward_logits:
  assumes "fst (LSTMModel_forward m x) = Inr y"
  shows "\<exists>x2 outputs final_hidden final_cell outputs' attn_weights.
    fst (TemporalCNN_forward (training m) (conv_layer m) (permute_0_2_1 x)) = Inr x2 \<and>
    LSTM_forward lstm_input_dim lstm_hidden_dim num_lstm_layers bidir_lstm (lstm_layer m)
      (permute_0_2_1 x2) = Inr (outputs, (final_hidden, final_cell)) \<and>
    SelfAttention_forward (attention m) outputs = Inr (outputs', attn_weights) \<and>
    shape y = [dim0 outputs', dim1 outputs', output_size m] \<and>
    dim2 outputs' = 256 \<and>
    elem y = (\<lambda>b t v. (\<Sum>d<256. elem outputs' b t d * lin_weight (linear_layer m) v d)
                       + lin_bias (linear_layer m) v)"
proof -
  from assms obtain x2 outputs final_hidden final_cell outputs' attn_weights where
    s: "fst (TemporalCNN_forward (training m) (conv_layer m) (permute_0_2_1 x)) = Inr x2"
      "LSTM_forward lstm_input_dim lstm_hidden_dim num_lstm_layers bidir_lstm (lstm_layer m)
         (permute_0_2_1 x2) = Inr (outputs, (final_hidden, final_cell))"
      "SelfAttention_forward (attention m) outputs = Inr (outputs', attn_weights)" and
    l: "Linear_forward lstm_output_dim (output_size m) (linear_layer m) outputs' = Inr y"
    by (rule LSTMModel_forward_stages)
  have w: "lstm_output_dim = 256" by (simp add: widths)
  from Linear_inv [OF l] s show ?thesis
    unfolding w shape_def by blast
qed

text \<open>
  The logits are not normalised: the example model returns 5 everywhere, and the 29
  logits of a timestep sum to 145.
\<close>

theorem LSTMModel_forward_logits_witness:
  "\<exists>y. fst (LSTMModel_forward example_model (zeros 2 16 8)) = Inr y \<and>
       shape y = [2, 4, 29] \<and> elem y 0 0 0 = 5 \<and> (\<Sum>v<29. elem y 0 0 v) = 145"
proof -
  obtain y where y: "fst (LSTMModel_forward example_model (zeros 2 16 8)) = Inr y"
      "dim0 y = 2" "dim1 y = 4" "dim2 y = 29"
    using LSTMModel_forward_ok [OF constructed_example, of "zeros 2 16 8"] by auto
  from LSTMModel_forward_logits [OF y(1)]
  have "elem y = (\<lambda>b t v. 5)"
    by (auto simp add: const_linear_def)
  with y show ?thesis
    by (simp add: shape_def)
qed

text \<open>
  Claim C10. A successful call of \<open>LSTMModel.forward\<close> returns one tensor, the logits.
  The recurrent layer also produces its final hidden and cell states (each of shape
  \<open>[6, B, 128]\<close>) and the attention block its weights (of shape \<open>[B, T', T']\<close>); none of
  them is part of what the call returns, which is the logits and the model with the
  extractor's buffers updated.
\<close>

theorem LSTMModel_forward_single_tensor:
  assumes "fst (LSTMModel_forward m x) = Inr y"
  shows "\<exists>x2 outputs final_hidden final_cell outputs' attn_weights.
    fst (TemporalCNN_forward (training m) (conv_layer m) (permute_0_2_1 x)) = Inr x2 \<and>
    LSTM_forward lstm_input_dim lstm_hidden_dim num_lstm_layers bidir_lstm (lstm_layer m)
      (permute_0_2_1 x2) = Inr (outputs, (final_hidden, final_cell)) \<and>
    SelfAttention_forward (attention m) outputs = Inr (outputs', attn_weights) \<and>
    shape final_hidden = [6, dim0 y, 128] \<and>
    shape final_cell = [6, dim0 y, 128] \<and>
    shape attn_weights = [dim0 y, dim1 y, dim1 y] \<and>
    Linear_forward lstm_output_dim (output_size m) (linear_layer m) outputs' = Inr y \<and>
    LSTMModel_forward m x =
      (Inr y, m\<lparr>conv_layer :=
                  snd (TemporalCNN_forward (training m) (conv_layer m) (permute_0_2_1 x))\<rparr>)"
proof -
  from assms obtain x2 outputs final_hidden final_cell outputs' attn_weights where
    c: "fst (TemporalCNN_forward (training m) (conv_layer m) (permute_0_2_1 x)) = Inr x2" and
    r: "LSTM_forward lstm_input_dim lstm_hidden_dim num_lstm_layers bidir_lstm (lstm_layer m)
         (permute_0_2_1 x2) = Inr (outputs, (final_hidden, final_cell))" and
    a: "SelfAttention_forward (attention m) outputs = Inr (outputs', attn_weights)" and
    l: "Linear_forward lstm_output_dim (output_size m) (linear_layer m) outputs' = Inr y"
    by (rule LSTMModel_forward_stages)
  have ro: "dim0 outputs = dim0 x2" "dim1 outputs = dim2 x2"
    using LSTM_forward_inv [OF r] by simp_all
  have "shape final_hidden = [6, dim0 x2, 128]" "shape final_cell = [6, dim0 x2, 128]"
    using r by (auto simp add: LSTM_forward_def LSTM_final_def shape_def widths split: if_splits)
  moreover
  obtain o' s where o': "SelfAttention_forward (attention m) outputs = Inr (o', softmax s)"
      "dim0 o' = dim0 outputs" "dim1 o' = dim1 outputs"
      "dim0 s = dim0 outputs" "dim1 s = dim1 outputs" "dim2 s = dim1 outputs"
    using SelfAttention_forward_ok [OF SelfAttention_forward_inv [OF a]] by blast
  with a have "outputs' = o'" "attn_weights = softmax s" by simp_all
  with o' have "shape attn_weights = [dim0 outputs, dim1 outputs, dim1 outputs]"
      "dim0 outputs' = dim0 outputs" "dim1 outputs' = dim1 outputs"
    by (simp_all add: shape_def)
  moreover have "dim0 y = dim0 outputs'" "dim1 y = dim1 outputs'"
    using Linear_inv [OF l] by simp_all
  moreover have "LSTMModel_forward m x =
      (Inr y, m\<lparr>conv_layer :=
                  snd (TemporalCNN_forward (training m) (conv_layer m) (permute_0_2_1 x))\<rparr>)"
    using assms LSTMModel_forward_state [of m x] by (simp add: prod_eq_iff)
  ultimately show ?thesis
    using c r a l ro by auto
qed

theorem LSTMModel_forward_single_tensor_witness:
  "\<exists>y. fst (LSTMModel_forward example_model (zeros 2 16 8)) = Inr y \<and>
     (\<exists>final_hidden final_cell attn_weights outputs outputs' x2.
        LSTM_forward lstm_input_dim lstm_hidden_dim num_lstm_layers bidir_lstm
          (lstm_layer example_model) (permute_0_2_1 x2)
          = Inr (outputs, (final_hidden, final_cell)) \<and>
        SelfAttention_forward (attention example_model) outputs = Inr (outputs', attn_weights) \<and>
        shape final_hidden = [6, 2, 128] \<and> shape final_cell = [6, 2, 128] \<and>
        shape attn_weights = [2, 4, 4] \<and> shape y = [2, 4, 29])"
proof -
  obtain y where y: "fst (LSTMModel_forward example_model (zeros 2 16 8)) = Inr y"
      "dim0 y = 2" "dim1 y = 4" "dim2 y = 29"
    using LSTMModel_forward_ok [OF constructed_example, of "zeros 2 16 8"] by auto
  from LSTMModel_forward_single_tensor [OF y(1)] y show ?thesis
    unfolding shape_def by (simp add: shape_def) blast
qed

subsection \<open>Determinism and the state a call changes (C7, C8)\<close>

text \<open>
  Claim C7. In evaluation mode, a second call of \<open>LSTMModel.forward\<close> on the same model
  with the same input returns the same output as the first: the first call leaves the
  model as it was.
\<close>

theorem LSTMModel_forward_deterministic:
  assumes "\<not> training m"
  shows "fst (LSTMModel_forward (snd (LSTMModel_forward m x)) x) = fst (LSTMModel_forward m x) \<and>
         snd (LSTMModel_forward m x) = m"
  using assms by (simp add: LSTMModel_forward_eval_state)

theorem LSTMModel_forward_deterministic_witness:
  "\<not> training (eval_mode example_model) \<and>
   fst (LSTMModel_forward (snd (LSTMModel_forward (eval_mode example_model) (zeros 2 16 8)))
          (zeros 2 16 8))
   = fst (LSTMModel_forward (eval_mode example_model) (zeros 2 16 8))"
proof -
  have a: "\<not> training (eval_mode example_model)" by simp
  show ?thesis
    using a LSTMModel_forward_deterministic [OF a, of "zeros 2 16 8"] by blast
qed




end
